theory Spec2Isabelle
  imports Main "HOL-Library.AList"
begin

section \<open>Values handled by the page-props factory\<close>

text \<open>
  Values whose shape the factory never inspects (preview data, context entries of the
  layout response, fetched component props) are JSON-like values.
\<close>

datatype jval =
    JNull
  | JBool bool
  | JNum int
  | JStr string
  | JArr "jval list"
  | JObj "(string \<times> jval) list"

text \<open>
  \<open>ParsedUrlQuery\<close>: an object whose properties are strings or arrays of strings. An
  object is an association list with one entry per key; a property that is absent reads
  as \<open>undefined\<close>, here \<open>None\<close>.
\<close>

datatype query_value = QString string | QArray "string list"

type_synonym ParsedUrlQuery = "(string \<times> query_value) list"

text \<open>Opaque handles of the host framework.\<close>

datatype IncomingMessage = IncomingMessage nat

datatype ServerResponse = ServerResponse nat

datatype Session = Session string

text \<open>
  \<open>GetServerSidePropsContext | GetStaticPropsContext\<close>, read structurally as the
  source does: \<open>req\<close> and \<open>res\<close> are \<open>None\<close> where the object has no such
  property, \<open>preview\<close> and \<open>locale\<close> are optional.
\<close>

record Context =
  req :: "IncomingMessage option"
  res :: "ServerResponse option"
  params :: "ParsedUrlQuery option"
  preview :: "bool option"
  previewData :: jval
  ctx_locale :: "string option"

text \<open>The layout response of the SDK: \<open>{ sitecore: { context, route } }\<close>.\<close>

record RouteData =
  route_name :: string
  itemId :: "string option"
  placeholders :: jval

record Sitecore =
  layout_context :: "(string \<times> jval) list"
  route :: "RouteData option"

record LayoutServiceData =
  sitecore :: Sitecore

type_synonym DictionaryPhrases = "(string \<times> string) list"

type_synonym ComponentPropsCollection = "(string \<times> jval) list"

record EditingData =
  language :: string
  layoutData :: LayoutServiceData
  dictionary :: DictionaryPhrases

text \<open>
  A property of \<open>OnfsSitecoreContextValue\<close> holds the route payload, the item id (a
  string or \<open>undefined\<close>) or an entry copied from the layout's context.
\<close>

datatype context_value =
    RouteValue RouteData
  | StringValue string
  | Undefined
  | JsonValue jval

type_synonym OnfsSitecoreContextValue = "(string \<times> context_value) list"

record SitecorePageProps =
  page_locale :: string
  page_dictionary :: DictionaryPhrases
  sitecoreContext :: "OnfsSitecoreContextValue option"
  componentProps :: ComponentPropsCollection
  notFound :: bool
  unauthorized :: bool

text \<open>
  A rejection value: an error object with a message and, for a failed HTTP exchange, a
  \<open>response\<close> that may carry a numeric \<open>status\<close>.
\<close>

datatype Response = Response (status: "int option")

datatype JsError = JsError (message: string) (response: "Response option")

text \<open>\<open>error.response?.status\<close>\<close>

definition response_status :: "JsError \<Rightarrow> int option" where
  "response_status error = (case response error of None \<Rightarrow> None | Some r \<Rightarrow> status r)"

section \<open>Path extraction\<close>

text \<open>\<open>Array.prototype.join\<close> on an array of strings.\<close>

fun join :: "string list \<Rightarrow> string \<Rightarrow> string" where
  "join [] sep = []"
| "join [x] sep = x"
| "join (x # y # ys) sep = x @ sep @ join (y # ys) sep"

text \<open>\<open>String.prototype.startsWith\<close>\<close>

definition startsWith :: "string \<Rightarrow> string \<Rightarrow> bool" where
  "startsWith s p = (take (length p) s = p)"

text \<open>
  Line 72 of the factory:
  \<open>Array.isArray(params.path) ? params.path.join('/') : params.path ?? '/'\<close>.
\<close>

definition pathParam :: "ParsedUrlQuery \<Rightarrow> string" where
  "pathParam ps =
     (case map_of ps ''path'' of
        Some (QArray segments) \<Rightarrow> join segments ''/''
      | Some (QString s) \<Rightarrow> s
      | None \<Rightarrow> ''/'')"

definition extractPath :: "ParsedUrlQuery option \<Rightarrow> string" where
  "extractPath ps =
     (case ps of
        None \<Rightarrow> ''/''
      | Some q \<Rightarrow>
          (let path = pathParam q
           in if \<not> startsWith path ''/'' then ''/'' @ path else path))"

text \<open>Whether a string holds two slashes in a row.\<close>

fun duplicateSlashes :: "string \<Rightarrow> bool" where
  "duplicateSlashes [] = False"
| "duplicateSlashes [c] = False"
| "duplicateSlashes (c # d # cs) =
     ((c = CHR ''/'' \<and> d = CHR ''/'') \<or> duplicateSlashes (d # cs))"

text \<open>
  \<open>isServerSidePropsContext\<close>: the context is a request-time one when it has a
  \<open>req\<close> property.
\<close>

definition isServerSidePropsContext :: "Context \<Rightarrow> bool" where
  "isServerSidePropsContext context = (req context \<noteq> None)"

section \<open>External services, effects and the factory's state\<close>

text \<open>
  \<open>layoutServiceFactory.create(session?)\<close> builds a layout service; the service is
  characterised by the session it was built with.
\<close>

datatype LayoutService = LayoutService "Session option"

definition layoutServiceFactory_create :: "Session option \<Rightarrow> LayoutService" where
  "layoutServiceFactory_create session = LayoutService session"

text \<open>The calls a resolution makes to the outside, in the order it makes them.\<close>

datatype event =
    GetSession
  | GetEditingData jval
  | FetchLayoutData LayoutService string string "IncomingMessage option" "ServerResponse option"
  | ConsoleLog JsError
  | FetchDictionaryData string
  | FetchServerSideComponentProps LayoutServiceData
  | FetchStaticComponentProps LayoutServiceData

text \<open>
  The collaborators, as what each answers: \<open>Inl\<close> is a rejected promise. The default
  language of \<open>package.json\<close> and the rendering of the preview data in the error
  message come with them.
\<close>

record Services =
  getSession :: "Context \<Rightarrow> JsError + Session option"
  getEditingData :: "jval \<Rightarrow> JsError + EditingData option"
  fetchLayoutData ::
    "LayoutService \<Rightarrow> string \<Rightarrow> string \<Rightarrow> IncomingMessage option \<Rightarrow> ServerResponse option
       \<Rightarrow> JsError + LayoutServiceData"
  fetchDictionaryData :: "string \<Rightarrow> JsError + DictionaryPhrases"
  fetchServerSideComponentProps ::
    "LayoutServiceData \<Rightarrow> Context \<Rightarrow> JsError + ComponentPropsCollection"
  fetchStaticComponentProps ::
    "LayoutServiceData \<Rightarrow> Context \<Rightarrow> JsError + ComponentPropsCollection"
  JSON_stringify :: "jval \<Rightarrow> string"
  pkg_config_language :: string

text \<open>
  The state a call of \<open>create\<close> reads and writes: the factory's \<open>layoutService\<close>
  field, and the log of calls made so far.
\<close>

record state =
  layoutService :: LayoutService
  trace :: "event list"

type_synonym 'a io = "state \<Rightarrow> (JsError + 'a) \<times> state"

definition io_return :: "'a \<Rightarrow> 'a io" where
  "io_return x = (\<lambda>s. (Inr x, s))"

definition io_throw :: "JsError \<Rightarrow> 'a io" where
  "io_throw e = (\<lambda>s. (Inl e, s))"

definition io_bind :: "'a io \<Rightarrow> ('a \<Rightarrow> 'b io) \<Rightarrow> 'b io" where
  "io_bind m f = (\<lambda>s. case m s of (Inl e, s') \<Rightarrow> (Inl e, s') | (Inr x, s') \<Rightarrow> f x s')"

definition io_catch :: "'a io \<Rightarrow> (JsError \<Rightarrow> 'a io) \<Rightarrow> 'a io" where
  "io_catch m h = (\<lambda>s. case m s of (Inl e, s') \<Rightarrow> h e s' | (Inr x, s') \<Rightarrow> (Inr x, s'))"

text \<open>Awaiting a collaborator: the call is logged and its answer is the outcome.\<close>

definition call :: "event \<Rightarrow> (JsError + 'a) \<Rightarrow> 'a io" where
  "call ev answer = (\<lambda>s. (answer, s\<lparr>trace := trace s @ [ev]\<rparr>))"

definition console_log :: "JsError \<Rightarrow> unit io" where
  "console_log e = (\<lambda>s. (Inr (), s\<lparr>trace := trace s @ [ConsoleLog e]\<rparr>))"

definition set_layoutService :: "LayoutService \<Rightarrow> unit io" where
  "set_layoutService ls = (\<lambda>s. (Inr (), s\<lparr>layoutService := ls\<rparr>))"

definition get_layoutService :: "LayoutService io" where
  "get_layoutService = (\<lambda>s. (Inr (layoutService s), s))"

section \<open>\<open>SitecorePagePropsFactory.create\<close>\<close>

text \<open>The local variables that the two modes assign.\<close>

record locals =
  l_locale :: string
  l_layoutData :: "LayoutServiceData option"
  l_dictionary :: DictionaryPhrases
  l_notFound :: bool
  l_unauthorized :: bool

text \<open>
  The handler of \<open>.catch\<close> (lines 159 to 175). It assigns the flags of the enclosing
  call, so it takes them and gives them back with the value the promise resolves to.
\<close>

definition catch_handler ::
  "bool \<Rightarrow> bool \<Rightarrow> JsError \<Rightarrow> (LayoutServiceData option \<times> bool \<times> bool) io" where
  "catch_handler nf un error =
     io_bind (console_log error) (\<lambda>_.
       if response_status error = Some 404 then io_return (None, True, un)
       else if response_status error = Some 401 then io_return (None, nf, True)
       else io_throw error)"

text \<open>\<open>layoutData?.sitecore.route\<close>\<close>

definition layout_route :: "LayoutServiceData option \<Rightarrow> RouteData option" where
  "layout_route ld = (case ld of None \<Rightarrow> None | Some d \<Rightarrow> route (sitecore d))"

text \<open>Preview mode, lines 121 to 133.\<close>

definition preview_mode :: "Services \<Rightarrow> Context \<Rightarrow> locals io" where
  "preview_mode sv context =
     io_bind (call (GetEditingData (previewData context))
                (getEditingData sv (previewData context))) (\<lambda>data.
       case data of
         None \<Rightarrow>
           io_throw (JsError (''Unable to get editing data for preview ''
                               @ JSON_stringify sv (previewData context)) None)
       | Some d \<Rightarrow>
           io_return \<lparr>l_locale = language d, l_layoutData = Some (layoutData d),
                      l_dictionary = dictionary d, l_notFound = False,
                      l_unauthorized = False\<rparr>)"

text \<open>\<open>context.locale ?? pkg.config.language\<close>\<close>

definition resolveLocale :: "Services \<Rightarrow> Context \<Rightarrow> string" where
  "resolveLocale sv context =
     (case ctx_locale context of Some l \<Rightarrow> l | None \<Rightarrow> pkg_config_language sv)"

text \<open>Normal mode, lines 135 to 186.\<close>

definition normal_mode :: "Services \<Rightarrow> Context \<Rightarrow> Session option \<Rightarrow> locals io" where
  "normal_mode sv context session =
     (let path = extractPath (params context);
          locale = resolveLocale sv context;
          rq = (if isServerSidePropsContext context then req context else None);
          rs = (if isServerSidePropsContext context then res context else None)
      in
      io_bind (case session of
                 Some x \<Rightarrow> set_layoutService (layoutServiceFactory_create (Some x))
               | None \<Rightarrow> io_return ()) (\<lambda>_.
      io_bind get_layoutService (\<lambda>ls.
      io_bind (io_catch
                 (io_bind (call (FetchLayoutData ls path locale rq rs)
                             (fetchLayoutData sv ls path locale rq rs))
                    (\<lambda>d. io_return (Some d, False, False)))
                 (catch_handler False False)) (\<lambda>(layoutData, nf, un).
      let notFound = (if layout_route layoutData = None then True else nf)
      in
      io_bind (call (FetchDictionaryData locale) (fetchDictionaryData sv locale))
        (\<lambda>dictionary.
      io_return \<lparr>l_locale = locale, l_layoutData = layoutData,
                 l_dictionary = dictionary, l_notFound = notFound,
                 l_unauthorized = un\<rparr>)))))"

text \<open>Lines 118 to 187: the session lookup and the branch on \<open>context.preview\<close>.\<close>

definition resolve :: "Services \<Rightarrow> Context \<Rightarrow> locals io" where
  "resolve sv context =
     io_bind (call GetSession (getSession sv context)) (\<lambda>session.
       if preview context = Some True then preview_mode sv context
       else normal_mode sv context session)"

text \<open>
  An object literal with a spread: the properties of the source object are assigned in
  order onto the properties already written, a key that is already there keeping its
  place and taking the new value.
\<close>

definition spread :: "('k \<times> 'v) list \<Rightarrow> ('k \<times> 'v) list \<Rightarrow> ('k \<times> 'v) list" where
  "spread obj src = fold (\<lambda>(k, v). AList.update k v) src obj"

text \<open>Lines 191 to 195.\<close>

definition make_sitecoreContext :: "LayoutServiceData \<Rightarrow> RouteData \<Rightarrow> OnfsSitecoreContextValue" where
  "make_sitecoreContext d r =
     spread [(''route'', RouteValue r),
             (''itemId'', case itemId r of None \<Rightarrow> Undefined | Some i \<Rightarrow> StringValue i)]
            (map (\<lambda>(k, v). (k, JsonValue v)) (layout_context (sitecore d)))"

text \<open>Lines 189 to 219: the context payload, the component props and the result.\<close>

definition assemble :: "Services \<Rightarrow> Context \<Rightarrow> locals \<Rightarrow> SitecorePageProps io" where
  "assemble sv context l =
     io_bind (case l_layoutData l of
                None \<Rightarrow> io_return (None, [])
              | Some d \<Rightarrow>
                  (case route (sitecore d) of
                     None \<Rightarrow> io_return (None, [])
                   | Some r \<Rightarrow>
                       io_bind (if isServerSidePropsContext context
                                then call (FetchServerSideComponentProps d)
                                       (fetchServerSideComponentProps sv d context)
                                else call (FetchStaticComponentProps d)
                                       (fetchStaticComponentProps sv d context))
                         (\<lambda>props. io_return (Some (make_sitecoreContext d r), props))))
       (\<lambda>(sc, props).
          io_return \<lparr>page_locale = l_locale l, page_dictionary = l_dictionary l,
                     sitecoreContext = sc, componentProps = props,
                     notFound = l_notFound l, unauthorized = l_unauthorized l\<rparr>)"

definition create :: "Services \<Rightarrow> Context \<Rightarrow> SitecorePageProps io" where
  "create sv context = io_bind (resolve sv context) (assemble sv context)"

section \<open>The page route\<close>

text \<open>
  \<open>getServerSideProps\<close> of the catch-all page: the props of \<open>create\<close>, and the
  framework's \<open>notFound\<close> key when the props say so.
\<close>

record ServerSideResult =
  props :: SitecorePageProps
  result_notFound :: bool

definition getServerSideProps :: "Services \<Rightarrow> Context \<Rightarrow> ServerSideResult io" where
  "getServerSideProps sv context =
     io_bind (create sv context) (\<lambda>p.
       io_return \<lparr>props = p, result_notFound = notFound p\<rparr>)"

section \<open>Vocabulary of the statements\<close>

text \<open>
  The layout service that a normal-mode resolution fetches with: a new one when a session
  was found, the factory's current one otherwise.
\<close>

definition layoutService_used :: "Session option \<Rightarrow> state \<Rightarrow> LayoutService" where
  "layoutService_used session s =
     (case session of
        Some x \<Rightarrow> layoutServiceFactory_create (Some x)
      | None \<Rightarrow> layoutService s)"

text \<open>The layout request of a normal-mode resolution, and what the service answers.\<close>

definition layout_request :: "Services \<Rightarrow> Context \<Rightarrow> Session option \<Rightarrow> state \<Rightarrow> event" where
  "layout_request sv context session s =
     FetchLayoutData (layoutService_used session s) (extractPath (params context))
       (resolveLocale sv context)
       (if isServerSidePropsContext context then req context else None)
       (if isServerSidePropsContext context then res context else None)"

definition layout_outcome ::
  "Services \<Rightarrow> Context \<Rightarrow> Session option \<Rightarrow> state \<Rightarrow> JsError + LayoutServiceData" where
  "layout_outcome sv context session s =
     fetchLayoutData sv (layoutService_used session s) (extractPath (params context))
       (resolveLocale sv context)
       (if isServerSidePropsContext context then req context else None)
       (if isServerSidePropsContext context then res context else None)"

fun is_component_fetch :: "event \<Rightarrow> bool" where
  "is_component_fetch (FetchServerSideComponentProps d) = True"
| "is_component_fetch (FetchStaticComponentProps d) = True"
| "is_component_fetch ev = False"

fun is_service_fetch :: "event \<Rightarrow> bool" where
  "is_service_fetch (FetchLayoutData ls p l rq rs) = True"
| "is_service_fetch (FetchDictionaryData l) = True"
| "is_service_fetch ev = False"

section \<open>Sample resolutions\<close>

definition sample_route :: RouteData where
  "sample_route = \<lparr>route_name = ''home'', itemId = Some ''item-1'', placeholders = JObj []\<rparr>"

definition sample_layout :: "(string \<times> jval) list \<Rightarrow> RouteData option \<Rightarrow> LayoutServiceData" where
  "sample_layout bag r = \<lparr>sitecore = \<lparr>layout_context = bag, route = r\<rparr>\<rparr>"

definition sample_editing :: EditingData where
  "sample_editing =
     \<lparr>language = ''da'',
      layoutData = sample_layout [(''pageEditing'', JBool True), (''route'', JStr ''shadow'')]
                     (Some sample_route),
      dictionary = [(''title'', ''Titel'')]\<rparr>"

definition sample_services ::
  "(JsError + LayoutServiceData) \<Rightarrow> (JsError + EditingData option) \<Rightarrow> Services" where
  "sample_services layout editing =
     \<lparr>getSession = (\<lambda>c. Inr None),
      getEditingData = (\<lambda>d. editing),
      fetchLayoutData = (\<lambda>ls p l rq rs. layout),
      fetchDictionaryData = (\<lambda>l. Inr [(''title'', ''Title'')]),
      fetchServerSideComponentProps = (\<lambda>d c. Inr [(''cmp-1'', JStr ''request'')]),
      fetchStaticComponentProps = (\<lambda>d c. Inr [(''cmp-1'', JStr ''build'')]),
      JSON_stringify = (\<lambda>v. ''{}''),
      pkg_config_language = ''en''\<rparr>"

definition static_context :: Context where
  "static_context =
     \<lparr>req = None, res = None, params = Some [(''path'', QArray [''a'', ''b''])],
      preview = None, previewData = JNull, ctx_locale = None\<rparr>"

definition preview_context :: Context where
  "preview_context =
     static_context\<lparr>preview := Some True, previewData := JObj [(''key'', JStr ''k1'')]\<rparr>"

definition server_context :: Context where
  "server_context =
     static_context\<lparr>req := Some (IncomingMessage 0), res := Some (ServerResponse 0)\<rparr>"

definition initial_state :: state where
  "initial_state = \<lparr>layoutService = LayoutService None, trace = []\<rparr>"

definition http_error :: "int \<Rightarrow> JsError" where
  "http_error code = JsError ''Request failed'' (Some (Response (Some code)))"

section \<open>Path extraction: properties\<close>

lemma leading_slash_added:
  "\<not> startsWith p ''/'' \<Longrightarrow> \<not> startsWith (CHR ''/'' # p) ''//''"
  by (cases p) (simp_all add: startsWith_def)

lemma duplicateSlashes_Cons:
  "\<not> startsWith p ''/'' \<Longrightarrow> duplicateSlashes (CHR ''/'' # p) = duplicateSlashes p"
  by (cases p) (simp_all add: startsWith_def)

text \<open>
  C3, as the code has it. Without route parameters the path is \<open>/\<close>; the segments
  \<open>a\<close>, \<open>b\<close> give \<open>/a/b\<close>; and a path parameter that does not start with a slash
  is returned with one slash put in front: the result does not start with two slashes,
  and it holds two slashes in a row exactly when the parameter itself does.
\<close>

theorem extractPath_leading_slash:
  "extractPath None = ''/''
   \<and> (map_of q ''path'' = Some (QArray [''a'', ''b'']) \<longrightarrow> extractPath (Some q) = ''/a/b'')
   \<and> (\<not> startsWith (pathParam q') ''/'' \<longrightarrow>
        extractPath (Some q') = ''/'' @ pathParam q'
        \<and> \<not> startsWith (extractPath (Some q')) ''//''
        \<and> duplicateSlashes (extractPath (Some q')) = duplicateSlashes (pathParam q'))"
proof (intro conjI impI)
  show "extractPath None = ''/''"
    by (simp add: extractPath_def)
next
  assume "map_of q ''path'' = Some (QArray [''a'', ''b''])"
  then show "extractPath (Some q) = ''/a/b''"
    by (simp add: extractPath_def pathParam_def startsWith_def)
next
  assume h: "\<not> startsWith (pathParam q') ''/''"
  then show "extractPath (Some q') = ''/'' @ pathParam q'"
    by (simp add: extractPath_def)
  from h show "\<not> startsWith (extractPath (Some q')) ''//''"
    using leading_slash_added [of "pathParam q'"] by (simp add: extractPath_def)
  from h show "duplicateSlashes (extractPath (Some q')) = duplicateSlashes (pathParam q')"
    using duplicateSlashes_Cons [of "pathParam q'"] by (simp add: extractPath_def)
qed

theorem extractPath_leading_slash_witness:
  "extractPath None = ''/''
   \<and> extractPath (Some [(''path'', QArray [''a'', ''b''])]) = ''/a/b''
   \<and> extractPath (Some [(''path'', QString ''docs/intro'')]) = ''/docs/intro''
   \<and> \<not> startsWith (extractPath (Some [(''path'', QString ''docs/intro'')])) ''//''
   \<and> \<not> duplicateSlashes (extractPath (Some [(''path'', QString ''docs/intro'')]))"
  using extractPath_leading_slash [of "[(''path'', QArray [''a'', ''b''])]"
      "[(''path'', QString ''docs/intro'')]"]
  by (simp add: pathParam_def startsWith_def)

text \<open>
  C3 as stated fails: the path parameter \<open>a//b\<close> has no leading slash, and the path
  resolved from it, \<open>/a//b\<close>, holds two slashes in a row.
\<close>

theorem extractPath_duplicate_slashes:
  "\<not> startsWith (pathParam [(''path'', QString ''a//b'')]) ''/''
   \<and> extractPath (Some [(''path'', QString ''a//b'')]) = ''/a//b''
   \<and> duplicateSlashes (extractPath (Some [(''path'', QString ''a//b'')]))"
  by (simp add: extractPath_def pathParam_def startsWith_def)

section \<open>The factory: properties\<close>

lemmas io_defs = io_return_def io_throw_def io_bind_def io_catch_def call_def
  console_log_def set_layoutService_def get_layoutService_def

lemma normal_mode_layout_error:
  assumes "layout_outcome sv ctx session s = Inl error"
  shows "normal_mode sv ctx session s =
     (if response_status error = Some 404 \<or> response_status error = Some 401 then
        (case fetchDictionaryData sv (resolveLocale sv ctx) of
           Inl e \<Rightarrow> Inl e
         | Inr d \<Rightarrow>
             Inr \<lparr>l_locale = resolveLocale sv ctx, l_layoutData = None, l_dictionary = d,
                  l_notFound = True,
                  l_unauthorized = (response_status error \<noteq> Some 404)\<rparr>,
         s\<lparr>layoutService := layoutService_used session s,
           trace := trace s @ [layout_request sv ctx session s, ConsoleLog error,
                               FetchDictionaryData (resolveLocale sv ctx)]\<rparr>)
      else
        (Inl error,
         s\<lparr>layoutService := layoutService_used session s,
           trace := trace s @ [layout_request sv ctx session s, ConsoleLog error]\<rparr>))"
  using assms
  by (cases session)
     (auto simp: normal_mode_def io_defs catch_handler_def layout_outcome_def
        layout_request_def layoutService_used_def layout_route_def Let_def
        split: sum.splits)

lemma normal_mode_layout_ok:
  assumes "layout_outcome sv ctx session s = Inr d"
  shows "normal_mode sv ctx session s =
        ((case fetchDictionaryData sv (resolveLocale sv ctx) of
           Inl e \<Rightarrow> Inl e
         | Inr dict \<Rightarrow>
             Inr \<lparr>l_locale = resolveLocale sv ctx, l_layoutData = Some d, l_dictionary = dict,
                  l_notFound = (route (sitecore d) = None),
                  l_unauthorized = False\<rparr>),
         s\<lparr>layoutService := layoutService_used session s,
           trace := trace s @ [layout_request sv ctx session s,
                               FetchDictionaryData (resolveLocale sv ctx)]\<rparr>)"
  using assms
  by (cases session)
     (auto simp: normal_mode_def io_defs catch_handler_def layout_outcome_def
        layout_request_def layoutService_used_def layout_route_def Let_def
        split: sum.splits)

lemma resolve_normal:
  assumes "preview ctx \<noteq> Some True" and "getSession sv ctx = Inr session"
  shows "resolve sv ctx s =
           normal_mode sv ctx session (s\<lparr>trace := trace s @ [GetSession]\<rparr>)"
  using assms by (simp add: resolve_def io_defs)


lemma layout_outcome_trace [simp]:
  "layout_outcome sv ctx session (s\<lparr>trace := t\<rparr>) = layout_outcome sv ctx session s"
  by (simp add: layout_outcome_def layoutService_used_def split: option.splits)

lemma layout_request_trace [simp]:
  "layout_request sv ctx session (s\<lparr>trace := t\<rparr>) = layout_request sv ctx session s"
  by (simp add: layout_request_def layoutService_used_def split: option.splits)

lemma layoutService_used_trace [simp]:
  "layoutService_used session (s\<lparr>trace := t\<rparr>) = layoutService_used session s"
  by (simp add: layoutService_used_def split: option.splits)

lemma assemble_without_route:
  "layout_route (l_layoutData l) = None \<Longrightarrow>
   assemble sv ctx l s =
     (Inr \<lparr>page_locale = l_locale l, page_dictionary = l_dictionary l,
           sitecoreContext = None, componentProps = [],
           notFound = l_notFound l, unauthorized = l_unauthorized l\<rparr>, s)"
  by (auto simp: assemble_def io_defs layout_route_def split: option.splits)

lemma assemble_with_route:
  "l_layoutData l = Some d \<Longrightarrow> route (sitecore d) = Some r \<Longrightarrow>
   assemble sv ctx l s =
     ((case (if isServerSidePropsContext ctx
             then fetchServerSideComponentProps sv d ctx
             else fetchStaticComponentProps sv d ctx) of
         Inl e \<Rightarrow> Inl e
       | Inr cp \<Rightarrow>
           Inr \<lparr>page_locale = l_locale l, page_dictionary = l_dictionary l,
                sitecoreContext = Some (make_sitecoreContext d r), componentProps = cp,
                notFound = l_notFound l, unauthorized = l_unauthorized l\<rparr>),
      s\<lparr>trace := trace s @ [if isServerSidePropsContext ctx
                             then FetchServerSideComponentProps d
                             else FetchStaticComponentProps d]\<rparr>)"
  by (auto simp: assemble_def io_defs split: sum.splits)

lemma create_after_resolve:
  "resolve sv ctx s = (Inr l, s1) \<Longrightarrow> create sv ctx s = assemble sv ctx l s1"
  by (simp add: create_def io_bind_def)

lemma create_resolve_fails:
  "resolve sv ctx s = (Inl e, s1) \<Longrightarrow> create sv ctx s = (Inl e, s1)"
  by (simp add: create_def io_bind_def)

text \<open>
  C2. In a resolution that is not a preview, whose session lookup answers and whose layout
  fetch is rejected with status 404: the calls made are the session lookup, the layout
  fetch, the log of the error and the dictionary fetch for the resolved locale, in this
  order and no other; and \<open>create\<close> returns as soon as the dictionary fetch answers,
  with \<open>notFound\<close> set, \<open>unauthorized\<close> not set and no context payload (a
  rejected dictionary fetch is the only way it does not return).
\<close>

theorem create_layout_404:
  assumes "preview ctx \<noteq> Some True"
      and "getSession sv ctx = Inr session"
      and "layout_outcome sv ctx session s = Inl error"
      and "response_status error = Some 404"
  shows "fst (create sv ctx s) =
           (case fetchDictionaryData sv (resolveLocale sv ctx) of
              Inl e \<Rightarrow> Inl e
            | Inr d \<Rightarrow>
                Inr \<lparr>page_locale = resolveLocale sv ctx, page_dictionary = d,
                     sitecoreContext = None, componentProps = [],
                     notFound = True, unauthorized = False\<rparr>)
         \<and> trace (snd (create sv ctx s)) =
             trace s @ [GetSession, layout_request sv ctx session s, ConsoleLog error,
                        FetchDictionaryData (resolveLocale sv ctx)]"
proof -
  let ?s = "s\<lparr>trace := trace s @ [GetSession]\<rparr>"
  have r: "resolve sv ctx s = normal_mode sv ctx session ?s"
    using assms(1,2) by (rule resolve_normal)
  have n: "layout_outcome sv ctx session ?s = Inl error"
    using assms(3) by simp
  show ?thesis
  proof (cases "fetchDictionaryData sv (resolveLocale sv ctx)")
    case (Inl e)
    then show ?thesis
      using normal_mode_layout_error [OF n] assms(4) r
      by (simp add: create_resolve_fails)
  next
    case (Inr d)
    then show ?thesis
      using normal_mode_layout_error [OF n] assms(4) r
      by (simp add: create_after_resolve assemble_without_route layout_route_def)
  qed
qed


text \<open>
  C5. In a resolution that is not a preview, whose layout fetch is rejected with an error
  whose status is neither 404 nor 401 (an error without a response or without a status
  included): \<open>create\<close> is rejected with that very error, after logging it, and makes
  no further call.
\<close>

theorem create_layout_other_error:
  assumes "preview ctx \<noteq> Some True"
      and "getSession sv ctx = Inr session"
      and "layout_outcome sv ctx session s = Inl error"
      and "response_status error \<noteq> Some 404"
      and "response_status error \<noteq> Some 401"
  shows "fst (create sv ctx s) = Inl error
         \<and> trace (snd (create sv ctx s)) =
             trace s @ [GetSession, layout_request sv ctx session s, ConsoleLog error]"
proof -
  let ?s = "s\<lparr>trace := trace s @ [GetSession]\<rparr>"
  have r: "resolve sv ctx s = normal_mode sv ctx session ?s"
    using assms(1,2) by (rule resolve_normal)
  have n: "layout_outcome sv ctx session ?s = Inl error"
    using assms(3) by simp
  show ?thesis
    using normal_mode_layout_error [OF n] assms(4,5) r
    by (simp add: create_resolve_fails)
qed

text \<open>
  C6. In a resolution that is not a preview, whose layout fetch answers with layout data
  that has no route: the result that \<open>create\<close> returns has \<open>notFound\<close> set (it
  returns as soon as the dictionary fetch answers).
\<close>

theorem create_layout_without_route:
  assumes "preview ctx \<noteq> Some True"
      and "getSession sv ctx = Inr session"
      and "layout_outcome sv ctx session s = Inr d"
      and "route (sitecore d) = None"
  shows "fst (create sv ctx s) =
           (case fetchDictionaryData sv (resolveLocale sv ctx) of
              Inl e \<Rightarrow> Inl e
            | Inr dict \<Rightarrow>
                Inr \<lparr>page_locale = resolveLocale sv ctx, page_dictionary = dict,
                     sitecoreContext = None, componentProps = [],
                     notFound = True, unauthorized = False\<rparr>)"
proof -
  let ?s = "s\<lparr>trace := trace s @ [GetSession]\<rparr>"
  have r: "resolve sv ctx s = normal_mode sv ctx session ?s"
    using assms(1,2) by (rule resolve_normal)
  have n: "layout_outcome sv ctx session ?s = Inr d"
    using assms(3) by simp
  show ?thesis
  proof (cases "fetchDictionaryData sv (resolveLocale sv ctx)")
    case (Inl e)
    then show ?thesis
      using normal_mode_layout_ok [OF n] r by (simp add: create_resolve_fails)
  next
    case (Inr dict)
    then show ?thesis
      using normal_mode_layout_ok [OF n] r assms(4)
      by (simp add: create_after_resolve assemble_without_route layout_route_def)
  qed
qed

text \<open>
  C4. In a preview resolution whose editing-data lookup answers with no data,
  \<open>create\<close> returns no result: it is rejected, with the error of the session lookup when
  that one was rejected, otherwise with the error that names the preview data.
\<close>

theorem create_preview_without_editing_data:
  assumes "preview ctx = Some True"
      and "getEditingData sv (previewData ctx) = Inr None"
  shows "fst (create sv ctx s) =
           Inl (case getSession sv ctx of
                  Inl e \<Rightarrow> e
                | Inr session \<Rightarrow>
                    JsError (''Unable to get editing data for preview ''
                               @ JSON_stringify sv (previewData ctx)) None)"
  using assms
  by (simp add: create_def resolve_def preview_mode_def io_defs split: sum.splits)

lemma resolve_preview:
  assumes "preview ctx = Some True"
      and "getSession sv ctx = Inr session"
      and "getEditingData sv (previewData ctx) = Inr (Some d)"
  shows "resolve sv ctx s =
           (Inr \<lparr>l_locale = language d, l_layoutData = Some (layoutData d),
                 l_dictionary = dictionary d, l_notFound = False, l_unauthorized = False\<rparr>,
            s\<lparr>trace := trace s @ [GetSession, GetEditingData (previewData ctx)]\<rparr>)"
  using assms by (simp add: resolve_def preview_mode_def io_defs)

lemma assemble_trace:
  "filter is_service_fetch (trace (snd (assemble sv ctx l s)))
     = filter is_service_fetch (trace s)"
  by (auto simp: assemble_def io_defs split: option.splits sum.splits)

lemma assemble_result:
  "assemble sv ctx l s = (Inr p, s') \<Longrightarrow>
     page_locale p = l_locale l \<and> page_dictionary p = l_dictionary l
     \<and> sitecoreContext p = map_option (make_sitecoreContext (the (l_layoutData l)))
                              (layout_route (l_layoutData l))
     \<and> notFound p = l_notFound l \<and> unauthorized p = l_unauthorized l
     \<and> (sitecoreContext p = None \<longrightarrow> componentProps p = [] \<and> s' = s)"
  by (auto simp: assemble_def io_defs layout_route_def split: option.splits sum.splits if_splits)

text \<open>
  C8. In a preview resolution whose editing-data lookup answers with data: the locale,
  the layout data and the dictionary that the branch assigns are the fields of the
  editing data, and the result returned carries them (the layout data as the context
  payload built from it); the resolution calls neither the layout service nor the
  dictionary service; and the branch does not depend on the route parameters.
\<close>

theorem create_preview_adopts_editing_data:
  assumes "preview ctx = Some True"
      and "getSession sv ctx = Inr session"
      and "getEditingData sv (previewData ctx) = Inr (Some d)"
  shows "resolve sv ctx s =
           (Inr \<lparr>l_locale = language d, l_layoutData = Some (layoutData d),
                 l_dictionary = dictionary d, l_notFound = False, l_unauthorized = False\<rparr>,
            s\<lparr>trace := trace s @ [GetSession, GetEditingData (previewData ctx)]\<rparr>)
         \<and> (case fst (create sv ctx s) of
               Inl e \<Rightarrow> True
             | Inr p \<Rightarrow>
                 page_locale p = language d \<and> page_dictionary p = dictionary d
                 \<and> sitecoreContext p =
                     map_option (make_sitecoreContext (layoutData d))
                       (route (sitecore (layoutData d))))
         \<and> filter is_service_fetch (trace (snd (create sv ctx s)))
             = filter is_service_fetch (trace s)
         \<and> preview_mode sv (ctx\<lparr>params := q\<rparr>) = preview_mode sv ctx"
proof (intro conjI)
  show r: "resolve sv ctx s =
           (Inr \<lparr>l_locale = language d, l_layoutData = Some (layoutData d),
                 l_dictionary = dictionary d, l_notFound = False, l_unauthorized = False\<rparr>,
            s\<lparr>trace := trace s @ [GetSession, GetEditingData (previewData ctx)]\<rparr>)"
    using assms by (rule resolve_preview)
  let ?l = "\<lparr>l_locale = language d, l_layoutData = Some (layoutData d),
                 l_dictionary = dictionary d, l_notFound = False, l_unauthorized = False\<rparr>"
  let ?s = "s\<lparr>trace := trace s @ [GetSession, GetEditingData (previewData ctx)]\<rparr>"
  have c: "create sv ctx s = assemble sv ctx ?l ?s"
    using r by (rule create_after_resolve)
  show "case fst (create sv ctx s) of
               Inl e \<Rightarrow> True
             | Inr p \<Rightarrow>
                 page_locale p = language d \<and> page_dictionary p = dictionary d
                 \<and> sitecoreContext p =
                     map_option (make_sitecoreContext (layoutData d))
                       (route (sitecore (layoutData d)))"
  proof (cases "assemble sv ctx ?l ?s")
    case (Pair x s')
    then show ?thesis
      using assemble_result [of sv ctx "?l" "?s" _ s'] c
      by (cases x) (simp_all add: layout_route_def)
  qed
  show "filter is_service_fetch (trace (snd (create sv ctx s)))
             = filter is_service_fetch (trace s)"
    using assemble_trace [of sv ctx "?l" "?s"] c by simp
  show "preview_mode sv (ctx\<lparr>params := q\<rparr>) = preview_mode sv ctx"
    by (simp add: preview_mode_def cong: option.case_cong)
qed

lemma spread_lookup:
  "distinct (map fst src) \<Longrightarrow> map_of (spread obj src) = map_of obj ++ map_of src"
  unfolding spread_def
proof (induction src arbitrary: obj)
  case Nil
  then show ?case by simp
next
  case (Cons a src)
  obtain k v where a: "a = (k, v)" by (cases a)
  from Cons.prems a have k: "map_of src k = None"
    by (simp add: map_of_eq_None_iff)
  have step: "(map_of obj)(k \<mapsto> v) ++ map_of src = map_of obj ++ (map_of src)(k \<mapsto> v)"
  proof (rule ext)
    fix x
    show "((map_of obj)(k \<mapsto> v) ++ map_of src) x = (map_of obj ++ (map_of src)(k \<mapsto> v)) x"
      using k by (simp add: map_add_def split: option.splits)
  qed
  have "map_of (fold (\<lambda>(k, v). AList.update k v) (a # src) obj)
      = map_of (fold (\<lambda>(k, v). AList.update k v) src (AList.update k v obj))"
    by (simp add: a)
  also have "\<dots> = map_of (AList.update k v obj) ++ map_of src"
    using Cons.IH [of "AList.update k v obj"] Cons.prems by simp
  also have "\<dots> = (map_of obj)(k \<mapsto> v) ++ map_of src"
    by (simp add: update_conv')
  also have "\<dots> = map_of obj ++ map_of (a # src)"
    using step by (simp add: a)
  finally show ?case .
qed

lemma map_of_JsonValue:
  "map_of (map (\<lambda>(k, v). (k, JsonValue v)) bag) k = map_option JsonValue (map_of bag k)"
  by (induction bag) auto

lemma keys_JsonValue:
  "map fst (map (\<lambda>(k, v). (k, JsonValue v)) bag) = map fst bag"
  by (induction bag) auto

lemma make_sitecoreContext_lookup:
  assumes "distinct (map fst (layout_context (sitecore d)))"
  shows "map_of (make_sitecoreContext d r) k =
           (case map_of (layout_context (sitecore d)) k of
              Some v \<Rightarrow> Some (JsonValue v)
            | None \<Rightarrow>
                (if k = ''route'' then Some (RouteValue r)
                 else if k = ''itemId''
                 then Some (case itemId r of None \<Rightarrow> Undefined | Some i \<Rightarrow> StringValue i)
                 else None))"
proof -
  let ?bag = "map (\<lambda>(k, v). (k, JsonValue v)) (layout_context (sitecore d))"
  have "distinct (map fst ?bag)"
    using assms by (simp only: keys_JsonValue)
  then show ?thesis
    unfolding make_sitecoreContext_def
    by (simp add: spread_lookup map_add_def map_of_JsonValue split: option.splits)
qed

text \<open>
  C7. In every resolution, preview or not, whose layout data has a route and which
  returns a result: the context payload is the object that starts with \<open>route\<close> (the
  route payload) and \<open>itemId\<close> (the route's item id) and onto which the layout's
  context is spread afterwards; so an entry \<open>route\<close> or \<open>itemId\<close> of the layout's
  context replaces the field written first. The layout's context is an object: no key
  occurs twice in it.
\<close>

theorem sitecoreContext_merge_order:
  assumes "resolve sv ctx s = (Inr l, s1)"
      and "l_layoutData l = Some d"
      and "route (sitecore d) = Some r"
      and "create sv ctx s = (Inr p, s2)"
      and "distinct (map fst (layout_context (sitecore d)))"
  shows "sitecoreContext p =
           Some (spread [(''route'', RouteValue r),
                         (''itemId'', case itemId r of None \<Rightarrow> Undefined
                                      | Some i \<Rightarrow> StringValue i)]
                   (map (\<lambda>(k, v). (k, JsonValue v)) (layout_context (sitecore d))))
         \<and> (\<exists>sc. sitecoreContext p = Some sc
               \<and> map_of sc ''route'' =
                   (case map_of (layout_context (sitecore d)) ''route'' of
                      Some v \<Rightarrow> Some (JsonValue v)
                    | None \<Rightarrow> Some (RouteValue r))
               \<and> map_of sc ''itemId'' =
                   (case map_of (layout_context (sitecore d)) ''itemId'' of
                      Some v \<Rightarrow> Some (JsonValue v)
                    | None \<Rightarrow> Some (case itemId r of None \<Rightarrow> Undefined
                                     | Some i \<Rightarrow> StringValue i)))"
proof -
  have "create sv ctx s = assemble sv ctx l s1"
    using assms(1) by (rule create_after_resolve)
  then have "assemble sv ctx l s1 = (Inr p, s2)"
    using assms(4) by simp
  then have sc: "sitecoreContext p = Some (make_sitecoreContext d r)"
    using assemble_with_route [OF assms(2,3), of sv ctx s1]
    by (auto split: sum.splits)
  show ?thesis
    using sc make_sitecoreContext_lookup [OF assms(5), of r]
    by (simp add: make_sitecoreContext_def)
qed

text \<open>
  C9. In every resolution, preview or not, whose layout data has a route: after the
  branch exactly one more call is made, the request-time fetch of the component props
  when the context has a \<open>req\<close> and the build-time fetch otherwise, and the result is
  what that fetch answers, placed beside the context payload.
\<close>

theorem component_props_fetch_path:
  assumes "resolve sv ctx s = (Inr l, s1)"
      and "l_layoutData l = Some d"
      and "route (sitecore d) = Some r"
  shows "snd (create sv ctx s) =
           s1\<lparr>trace := trace s1 @ [if req ctx \<noteq> None
                                    then FetchServerSideComponentProps d
                                    else FetchStaticComponentProps d]\<rparr>
         \<and> fst (create sv ctx s) =
             (case (if req ctx \<noteq> None
                    then fetchServerSideComponentProps sv d ctx
                    else fetchStaticComponentProps sv d ctx) of
                Inl e \<Rightarrow> Inl e
              | Inr cp \<Rightarrow>
                  Inr \<lparr>page_locale = l_locale l, page_dictionary = l_dictionary l,
                       sitecoreContext = Some (make_sitecoreContext d r),
                       componentProps = cp,
                       notFound = l_notFound l, unauthorized = l_unauthorized l\<rparr>)"
proof -
  have "create sv ctx s = assemble sv ctx l s1"
    using assms(1) by (rule create_after_resolve)
  then show ?thesis
    using assemble_with_route [OF assms(2,3), of sv ctx s1]
    by (simp add: isServerSidePropsContext_def)
qed

lemma preview_mode_trace:
  "filter is_component_fetch (trace (snd (preview_mode sv ctx s)))
     = filter is_component_fetch (trace s)"
  by (simp add: preview_mode_def io_defs split: option.splits sum.splits)

lemma normal_mode_trace:
  "filter is_component_fetch (trace (snd (normal_mode sv ctx session s)))
     = filter is_component_fetch (trace s)"
proof (cases "layout_outcome sv ctx session s")
  case (Inl error)
  show ?thesis
    using normal_mode_layout_error [OF Inl]
    by (simp add: layout_request_def split: sum.splits)
next
  case (Inr d)
  show ?thesis
    using normal_mode_layout_ok [OF Inr]
    by (simp add: layout_request_def split: sum.splits)
qed

lemma resolve_trace:
  "filter is_component_fetch (trace (snd (resolve sv ctx s)))
     = filter is_component_fetch (trace s)"
proof (cases "getSession sv ctx")
  case (Inl e)
  then show ?thesis by (simp add: resolve_def io_defs)
next
  case (Inr session)
  have "resolve sv ctx s =
          (if preview ctx = Some True
           then preview_mode sv ctx (s\<lparr>trace := trace s @ [GetSession]\<rparr>)
           else normal_mode sv ctx session (s\<lparr>trace := trace s @ [GetSession]\<rparr>))"
    using Inr by (simp add: resolve_def io_defs)
  then show ?thesis
    by (simp add: preview_mode_trace normal_mode_trace)
qed

text \<open>
  C10. A result of \<open>create\<close> without a context payload has the empty component props,
  and the resolution that returned it made no call to fetch component props.
\<close>

theorem no_context_no_component_props:
  assumes "create sv ctx s = (Inr p, s')"
      and "sitecoreContext p = None"
  shows "componentProps p = []
         \<and> filter is_component_fetch (trace s') = filter is_component_fetch (trace s)"
proof (cases "resolve sv ctx s")
  case (Pair x s1)
  show ?thesis
  proof (cases x)
    case (Inl e)
    then show ?thesis
      using Pair assms(1) by (simp add: create_resolve_fails)
  next
    case (Inr l)
    then have "assemble sv ctx l s1 = (Inr p, s')"
      using Pair assms(1) by (simp add: create_after_resolve)
    then have "componentProps p = [] \<and> s' = s1"
      using assemble_result [of sv ctx l s1 p s'] assms(2) by simp
    then show ?thesis
      using resolve_trace [of sv ctx s] Pair by simp
  qed
qed

section \<open>Sample resolutions, evaluated\<close>

lemmas sample_defs = sample_services_def static_context_def preview_context_def
  server_context_def initial_state_def http_error_def sample_layout_def sample_route_def
  sample_editing_def

lemmas request_defs = layout_outcome_def layout_request_def layoutService_used_def
  resolveLocale_def isServerSidePropsContext_def response_status_def extractPath_def
  pathParam_def startsWith_def

theorem create_layout_404_witness:
  "fst (create (sample_services (Inl (http_error 404)) (Inr None)) static_context initial_state)
     = Inr \<lparr>page_locale = ''en'', page_dictionary = [(''title'', ''Title'')],
            sitecoreContext = None, componentProps = [],
            notFound = True, unauthorized = False\<rparr>
   \<and> trace (snd (create (sample_services (Inl (http_error 404)) (Inr None)) static_context
                     initial_state))
     = [GetSession, FetchLayoutData (LayoutService None) ''/a/b'' ''en'' None None,
        ConsoleLog (http_error 404), FetchDictionaryData ''en'']"
  using create_layout_404 [of static_context
      "sample_services (Inl (http_error 404)) (Inr None)" None initial_state "http_error 404"]
  by (simp add: sample_defs request_defs)

theorem create_layout_other_error_witness:
  "fst (create (sample_services (Inl (JsError ''socket hang up'' None)) (Inr None))
          server_context initial_state)
     = Inl (JsError ''socket hang up'' None)
   \<and> trace (snd (create (sample_services (Inl (JsError ''socket hang up'' None)) (Inr None))
                     server_context initial_state))
     = [GetSession,
        FetchLayoutData (LayoutService None) ''/a/b'' ''en'' (Some (IncomingMessage 0))
          (Some (ServerResponse 0)),
        ConsoleLog (JsError ''socket hang up'' None)]"
  using create_layout_other_error [of server_context
      "sample_services (Inl (JsError ''socket hang up'' None)) (Inr None)" None initial_state
      "JsError ''socket hang up'' None"]
  by (simp add: sample_defs request_defs)

theorem create_layout_without_route_witness:
  "fst (create (sample_services (Inr (sample_layout [] None)) (Inr None)) static_context
          initial_state)
     = Inr \<lparr>page_locale = ''en'', page_dictionary = [(''title'', ''Title'')],
            sitecoreContext = None, componentProps = [],
            notFound = True, unauthorized = False\<rparr>"
  using create_layout_without_route [of static_context
      "sample_services (Inr (sample_layout [] None)) (Inr None)" None initial_state
      "sample_layout [] None"]
  by (simp add: sample_defs request_defs)

theorem create_preview_without_editing_data_witness:
  "fst (create (sample_services (Inl (http_error 500)) (Inr None)) preview_context
          initial_state)
     = Inl (JsError ''Unable to get editing data for preview {}'' None)"
  using create_preview_without_editing_data [of preview_context
      "sample_services (Inl (http_error 500)) (Inr None)" initial_state]
  by (simp add: sample_defs)


lemma sample_preview_resolve:
  "resolve (sample_services (Inl (http_error 500)) (Inr (Some sample_editing))) preview_context
     initial_state
   = (Inr \<lparr>l_locale = ''da'', l_layoutData = Some (layoutData sample_editing),
            l_dictionary = [(''title'', ''Titel'')], l_notFound = False,
            l_unauthorized = False\<rparr>,
      \<lparr>layoutService = LayoutService None,
        trace = [GetSession, GetEditingData (JObj [(''key'', JStr ''k1'')])]\<rparr>)"
  by (simp add: resolve_def preview_mode_def io_defs sample_defs)

lemma sample_preview_create:
  "create (sample_services (Inl (http_error 500)) (Inr (Some sample_editing))) preview_context
     initial_state
   = (Inr \<lparr>page_locale = ''da'', page_dictionary = [(''title'', ''Titel'')],
            sitecoreContext =
              Some [(''route'', JsonValue (JStr ''shadow'')),
                    (''itemId'', StringValue ''item-1''),
                    (''pageEditing'', JsonValue (JBool True))],
            componentProps = [(''cmp-1'', JStr ''build'')],
            notFound = False, unauthorized = False\<rparr>,
      \<lparr>layoutService = LayoutService None,
        trace = [GetSession, GetEditingData (JObj [(''key'', JStr ''k1'')]),
                 FetchStaticComponentProps (layoutData sample_editing)]\<rparr>)"
  unfolding create_after_resolve [OF sample_preview_resolve]
  by (simp add: assemble_def make_sitecoreContext_def spread_def isServerSidePropsContext_def
      io_defs sample_defs)

lemma sample_editing_route:
  "route (sitecore (layoutData sample_editing)) = Some sample_route"
  by (simp add: sample_editing_def sample_layout_def)

lemma sample_editing_distinct:
  "distinct (map fst (layout_context (sitecore (layoutData sample_editing))))"
  by (simp add: sample_editing_def sample_layout_def)

theorem sitecoreContext_merge_order_witness:
  "sitecoreContext (projr (fst (create
       (sample_services (Inl (http_error 500)) (Inr (Some sample_editing))) preview_context
       initial_state)))
     = Some [(''route'', JsonValue (JStr ''shadow'')),
             (''itemId'', StringValue ''item-1''),
             (''pageEditing'', JsonValue (JBool True))]
   \<and> map_of (the (sitecoreContext (projr (fst (create
         (sample_services (Inl (http_error 500)) (Inr (Some sample_editing))) preview_context
         initial_state))))) ''route''
     = Some (JsonValue (JStr ''shadow''))"
proof -
  have l: "l_layoutData \<lparr>l_locale = ''da'', l_layoutData = Some (layoutData sample_editing),
            l_dictionary = [(''title'', ''Titel'')], l_notFound = False,
            l_unauthorized = False\<rparr> = Some (layoutData sample_editing)"
    by simp
  show ?thesis
    using sitecoreContext_merge_order [OF sample_preview_resolve l sample_editing_route
        sample_preview_create sample_editing_distinct]
    unfolding sample_preview_create
    by (simp add: sample_defs spread_def)
qed

theorem create_preview_adopts_editing_data_witness:
  "resolve (sample_services (Inl (http_error 500)) (Inr (Some sample_editing))) preview_context
     initial_state
   = (Inr \<lparr>l_locale = ''da'', l_layoutData = Some (layoutData sample_editing),
            l_dictionary = [(''title'', ''Titel'')], l_notFound = False,
            l_unauthorized = False\<rparr>,
      \<lparr>layoutService = LayoutService None,
        trace = [GetSession, GetEditingData (JObj [(''key'', JStr ''k1'')])]\<rparr>)
   \<and> page_locale (projr (fst (create
         (sample_services (Inl (http_error 500)) (Inr (Some sample_editing))) preview_context
         initial_state))) = ''da''
   \<and> page_dictionary (projr (fst (create
         (sample_services (Inl (http_error 500)) (Inr (Some sample_editing))) preview_context
         initial_state))) = [(''title'', ''Titel'')]
   \<and> filter is_service_fetch (trace (snd (create
         (sample_services (Inl (http_error 500)) (Inr (Some sample_editing))) preview_context
         initial_state))) = []"
  using create_preview_adopts_editing_data [of preview_context
      "sample_services (Inl (http_error 500)) (Inr (Some sample_editing))" None sample_editing
      initial_state]
  by (simp add: sample_preview_create)
     (simp add: sample_defs)

lemma sample_server_resolve:
  "resolve (sample_services (Inr (sample_layout [] (Some sample_route))) (Inr None))
     server_context initial_state
   = (Inr \<lparr>l_locale = ''en'', l_layoutData = Some (sample_layout [] (Some sample_route)),
            l_dictionary = [(''title'', ''Title'')], l_notFound = False,
            l_unauthorized = False\<rparr>,
      \<lparr>layoutService = LayoutService None,
        trace = [GetSession,
                 FetchLayoutData (LayoutService None) ''/a/b'' ''en''
                   (Some (IncomingMessage 0)) (Some (ServerResponse 0)),
                 FetchDictionaryData ''en'']\<rparr>)"
  by (simp add: resolve_def normal_mode_def layout_route_def io_defs sample_defs request_defs
      Let_def)

theorem component_props_fetch_path_witness:
  "create (sample_services (Inl (http_error 500)) (Inr (Some sample_editing))) preview_context
     initial_state
   = (Inr \<lparr>page_locale = ''da'', page_dictionary = [(''title'', ''Titel'')],
            sitecoreContext = Some (make_sitecoreContext (layoutData sample_editing) sample_route),
            componentProps = [(''cmp-1'', JStr ''build'')],
            notFound = False, unauthorized = False\<rparr>,
      \<lparr>layoutService = LayoutService None,
        trace = [GetSession, GetEditingData (JObj [(''key'', JStr ''k1'')]),
                 FetchStaticComponentProps (layoutData sample_editing)]\<rparr>)
   \<and> create (sample_services (Inr (sample_layout [] (Some sample_route))) (Inr None))
       server_context initial_state
   = (Inr \<lparr>page_locale = ''en'', page_dictionary = [(''title'', ''Title'')],
            sitecoreContext =
              Some (make_sitecoreContext (sample_layout [] (Some sample_route)) sample_route),
            componentProps = [(''cmp-1'', JStr ''request'')],
            notFound = False, unauthorized = False\<rparr>,
      \<lparr>layoutService = LayoutService None,
        trace = [GetSession,
                 FetchLayoutData (LayoutService None) ''/a/b'' ''en''
                   (Some (IncomingMessage 0)) (Some (ServerResponse 0)),
                 FetchDictionaryData ''en'',
                 FetchServerSideComponentProps (sample_layout [] (Some sample_route))]\<rparr>)"
proof -
  have l: "l_layoutData \<lparr>l_locale = ''da'', l_layoutData = Some (layoutData sample_editing),
            l_dictionary = [(''title'', ''Titel'')], l_notFound = False,
            l_unauthorized = False\<rparr> = Some (layoutData sample_editing)"
    by simp
  have rq: "req preview_context = None"
    by (simp add: preview_context_def static_context_def)
  have cp: "fetchStaticComponentProps
              (sample_services (Inl (http_error 500)) (Inr (Some sample_editing)))
              (layoutData sample_editing) preview_context = Inr [(''cmp-1'', JStr ''build'')]"
    by (simp add: sample_services_def)
  have l': "l_layoutData \<lparr>l_locale = ''en'',
            l_layoutData = Some (sample_layout [] (Some sample_route)),
            l_dictionary = [(''title'', ''Title'')], l_notFound = False,
            l_unauthorized = False\<rparr> = Some (sample_layout [] (Some sample_route))"
    by simp
  have rt': "route (sitecore (sample_layout [] (Some sample_route))) = Some sample_route"
    by (simp add: sample_layout_def)
  have rq': "req server_context = Some (IncomingMessage 0)"
    by (simp add: server_context_def static_context_def)
  have cp': "fetchServerSideComponentProps
              (sample_services (Inr (sample_layout [] (Some sample_route))) (Inr None))
              (sample_layout [] (Some sample_route)) server_context
             = Inr [(''cmp-1'', JStr ''request'')]"
    by (simp add: sample_services_def)
  show ?thesis
    using component_props_fetch_path [OF sample_preview_resolve l sample_editing_route]
      component_props_fetch_path [OF sample_server_resolve l' rt']
    by (simp add: rq cp rq' cp' prod_eq_iff)
qed

theorem no_context_no_component_props_witness:
  "componentProps (projr (fst (create (sample_services (Inl (http_error 404)) (Inr None))
       static_context initial_state))) = []
   \<and> filter is_component_fetch (trace (snd (create
         (sample_services (Inl (http_error 404)) (Inr None)) static_context initial_state)))
     = []"
proof -
  let ?c = "create (sample_services (Inl (http_error 404)) (Inr None)) static_context
              initial_state"
  have c: "?c = (Inr \<lparr>page_locale = ''en'', page_dictionary = [(''title'', ''Title'')],
            sitecoreContext = None, componentProps = [],
            notFound = True, unauthorized = False\<rparr>,
      \<lparr>layoutService = LayoutService None,
        trace = [GetSession, FetchLayoutData (LayoutService None) ''/a/b'' ''en'' None None,
                 ConsoleLog (http_error 404), FetchDictionaryData ''en'']\<rparr>)"
    by (simp add: create_def resolve_def normal_mode_def catch_handler_def assemble_def
        layout_route_def io_defs sample_defs request_defs Let_def)
  have n: "sitecoreContext \<lparr>page_locale = ''en'', page_dictionary = [(''title'', ''Title'')],
            sitecoreContext = None, componentProps = [],
            notFound = True, unauthorized = False\<rparr> = None"
    by simp
  show ?thesis
    using no_context_no_component_props [OF c n]
    unfolding c
    by (simp add: initial_state_def)
qed

text \<open>
  A layout fetch rejected with status 401 sets \<open>unauthorized\<close> in the handler; the
  promise then resolves to \<open>null\<close>, and the test for a missing route, which follows,
  sets \<open>notFound\<close> as well.
\<close>

lemma create_layout_401:
  assumes "preview ctx \<noteq> Some True"
      and "getSession sv ctx = Inr session"
      and "layout_outcome sv ctx session s = Inl error"
      and "response_status error = Some 401"
  shows "fst (create sv ctx s) =
           (case fetchDictionaryData sv (resolveLocale sv ctx) of
              Inl e \<Rightarrow> Inl e
            | Inr d \<Rightarrow>
                Inr \<lparr>page_locale = resolveLocale sv ctx, page_dictionary = d,
                     sitecoreContext = None, componentProps = [],
                     notFound = True, unauthorized = True\<rparr>)"
proof -
  let ?s = "s\<lparr>trace := trace s @ [GetSession]\<rparr>"
  have r: "resolve sv ctx s = normal_mode sv ctx session ?s"
    using assms(1,2) by (rule resolve_normal)
  have n: "layout_outcome sv ctx session ?s = Inl error"
    using assms(3) by simp
  show ?thesis
  proof (cases "fetchDictionaryData sv (resolveLocale sv ctx)")
    case (Inl e)
    then show ?thesis
      using normal_mode_layout_error [OF n] assms(4) r
      by (simp add: create_resolve_fails)
  next
    case (Inr d)
    then show ?thesis
      using normal_mode_layout_error [OF n] assms(4) r
      by (simp add: create_after_resolve assemble_without_route layout_route_def)
  qed
qed

text \<open>
  C1 says that \<open>notFound\<close> and \<open>unauthorized\<close> are never both set in a result, and that
  a layout fetch rejected with status 401 gives \<open>unauthorized = true\<close> and
  \<open>notFound = false\<close>. Evaluated on a request-time context whose layout fetch is
  rejected with status 401, \<open>create\<close> returns both flags set, and
  \<open>getServerSideProps\<close> hands the framework its \<open>notFound\<close> key, so that the
  not-found page is served.
\<close>

theorem create_layout_401_both_flags:
  "fst (create (sample_services (Inl (http_error 401)) (Inr None)) server_context initial_state)
     = Inr \<lparr>page_locale = ''en'', page_dictionary = [(''title'', ''Title'')],
            sitecoreContext = None, componentProps = [],
            notFound = True, unauthorized = True\<rparr>
   \<and> fst (getServerSideProps (sample_services (Inl (http_error 401)) (Inr None)) server_context
            initial_state)
     = Inr \<lparr>props = \<lparr>page_locale = ''en'', page_dictionary = [(''title'', ''Title'')],
                      sitecoreContext = None, componentProps = [],
                      notFound = True, unauthorized = True\<rparr>,
            result_notFound = True\<rparr>"
proof -
  let ?c = "create (sample_services (Inl (http_error 401)) (Inr None)) server_context
              initial_state"
  have c: "fst ?c = Inr \<lparr>page_locale = ''en'', page_dictionary = [(''title'', ''Title'')],
            sitecoreContext = None, componentProps = [],
            notFound = True, unauthorized = True\<rparr>"
    using create_layout_401 [of server_context
      "sample_services (Inl (http_error 401)) (Inr None)" None initial_state "http_error 401"]
    by (simp add: sample_defs request_defs)
  then show ?thesis
    by (cases ?c) (simp add: getServerSideProps_def io_bind_def io_return_def)
qed

end
